theory Spec2Isabelle
  imports Complex_Main
begin

section \<open>Data model of \<open>chaco/lod_image_plot.py\<close>\<close>

text \<open>
  Python exceptions that the modelled methods can raise are values of \<open>py_error\<close>.
  Numbers that may be Python floats (screen coordinates, the result of the true
  division \<open>/\<close>) are exact rationals: the rounding of binary floating point is
  not modelled. Python integers are \<open>int\<close>.
\<close>

datatype py_error = TypeError | ValueError | ZeroDivisionError | IndexError | ImportError

text \<open>\<open>(col_min, col_max, row_min, row_max)\<close>\<close>

type_synonym index_bounds = "int \<times> int \<times> int \<times> int"

text \<open>\<open>(x, y, width, height)\<close> as returned by \<open>_calc_virtual_screen_bbox\<close>\<close>

type_synonym rect = "rat \<times> rat \<times> rat \<times> rat"

text \<open>The only callable that \<open>_render\<close> hands to the serializer.\<close>

datatype job = ComputeCachedImage

text \<open>Handlers registered with \<open>dispatch="ui"\<close>.\<close>

datatype ui_event = LodChanged | NewCacheReady

text \<open>The thread a method runs on: the GUI thread, or a thread of the executor.\<close>

datatype thread = UIThread | WorkerThread

text \<open>
  What the class reads from its collaborators, none of which is defined in
  \<open>lod_image_plot.py\<close>: the \<open>LODImageSource\<close> held in \<open>value\<close>
  (\<open>get_width\<close>, \<open>get_height\<close>, \<open>lod_bounds_from_nominal_bounds\<close>,
  \<open>get_data_bounded\<close>), the \<open>size\<close> attribute of the arrays it returns, and
  the inherited \<open>ImagePlot\<close> methods \<open>_calc_virtual_screen_bbox\<close> and
  \<open>_kiva_array_from_numpy_array\<close>. They are parameters of the model.
\<close>

record ('d, 'k) env =
  get_width :: int
  get_height :: int
  lod_bounds_from_nominal_bounds :: "index_bounds \<Rightarrow> int \<Rightarrow> index_bounds"
  get_data_bounded :: "index_bounds option \<Rightarrow> int \<Rightarrow> 'd"
  data_size :: "'d \<Rightarrow> nat"
  kiva_array_from_numpy_array :: "'d \<Rightarrow> 'k"
  calc_virtual_screen_bbox :: rect

text \<open>
  The attributes of a \<open>LODImagePlot\<close> that the methods below read or write.
  \<open>pending_operations\<close> is \<open>_serializer._pending_operations\<close>; \<open>ui_queue\<close>
  holds the handlers waiting on the GUI event loop; \<open>redraw_requests\<close>,
  \<open>super_invalidate_draws\<close> and \<open>gc_draws\<close> count or record the calls of
  \<open>request_redraw\<close>, of the superclass's \<open>invalidate_draw\<close> and of
  \<open>gc.draw_image\<close>; \<open>necessary_lod_cache\<close> is the value that
  \<open>@cached_property\<close> keeps for \<open>necessary_lod\<close>, \<open>None\<close> when there is none.
\<close>

record 'k plot =
  draw_bounds :: "rat list"
  draw_size :: "rat list"
  bounds :: "rat list"
  lod :: int
  maximum_lod :: int
  x_axis_is_flipped :: bool
  y_axis_is_flipped :: bool
  image_cache_valid :: bool
  cached_image :: "'k option"
  cached_dest_rect :: "rat list option"
  pending_operations :: "job list"
  ui_queue :: "ui_event list"
  redraw_requests :: nat
  super_invalidate_draws :: nat
  gc_draws :: "('k \<times> rat list) list"
  necessary_lod_cache :: "int option"

section \<open>\<open>_calc_zoom_coords\<close>\<close>

text \<open>Python's \<open>int(x)\<close> on a float truncates towards zero.\<close>

definition py_int :: "rat \<Rightarrow> int" where
  "py_int x = (if x < 0 then \<lceil>x\<rceil> else \<lfloor>x\<rfloor>)"

text \<open>
  \<open>Inr None\<close> is the return value \<open>(None, None)\<close>. Unpacking \<open>draw_bounds\<close>
  raises \<open>ValueError\<close> unless it has four items; the divisions raise
  \<open>ZeroDivisionError\<close> on a zero \<open>image_width\<close> or \<open>image_height\<close>.
\<close>

definition calc_zoom_coords ::
  "('d, 'k) env \<Rightarrow> 'k plot \<Rightarrow> rect \<Rightarrow> py_error + (index_bounds \<times> rat list) option" where
  "calc_zoom_coords e s image_rect =
     (case draw_bounds s of
        [sub_x, sub_y, sub_width, sub_height] \<Rightarrow>
          if sub_width = 0 \<or> sub_height = 0 \<or> 0 \<in> set (bounds s) then Inr None
          else
            (case image_rect of (image_x, image_y, image_width, image_height) \<Rightarrow>
               let array_width = get_width e - 1;
                   array_height = get_height e - 1
               in if image_width = 0 \<or> image_height = 0 then Inl ZeroDivisionError
                  else
                    let col_min = py_int ((sub_x - image_x) / image_width * of_int array_width);
                        col_max = py_int ((sub_x - image_x + sub_width) / image_width
                                          * of_int array_width);
                        row_min = py_int ((sub_y - image_y) / image_height * of_int array_height);
                        row_max = py_int ((sub_y - image_y + sub_height) / image_height
                                          * of_int array_height);
                        col_min = max col_min 0;
                        col_max = min col_max array_width;
                        row_min = max row_min 0;
                        row_max = min row_max array_height;
                        (row_min, row_max) =
                          (if y_axis_is_flipped s
                           then (array_height - row_max, array_height - row_min)
                           else (row_min, row_max));
                        (col_min, col_max) =
                          (if x_axis_is_flipped s
                           then (array_width - col_max, array_width - col_min)
                           else (col_min, col_max))
                    in Inr (Some ((col_min, col_max, row_min, row_max), draw_bounds s)))
      | _ \<Rightarrow> Inl ValueError)"

section \<open>\<open>_get_necessary_lod\<close> and the property \<open>necessary_lod\<close>\<close>

text \<open>
  The \<open>while\<close> loop, on the loop variables \<open>lod\<close> (here \<open>l\<close>) and the four bounds. Python
  integers are unbounded, so the loop has no exit other than its condition:
  \<open>None\<close> is the run that never leaves it.
\<close>

partial_function (option) necessary_lod_loop ::
  "(index_bounds \<Rightarrow> int \<Rightarrow> index_bounds) \<Rightarrow> index_bounds \<Rightarrow> rat \<Rightarrow> rat
     \<Rightarrow> int \<Rightarrow> index_bounds \<Rightarrow> int option" where
  "necessary_lod_loop f index_bnds sw sh l bnds =
     (case bnds of (col_min, col_max, row_min, row_max) \<Rightarrow>
        if of_int (col_max - col_min) < sw \<or> of_int (row_max - row_min) < sh
        then necessary_lod_loop f index_bnds sw sh (l - 1) (f index_bnds (l - 1))
        else Some l)"

text \<open>
  The function that \<open>@cached_property\<close> decorates. \<open>screen_rect[2:]\<close> raises \<open>TypeError\<close> when \<open>_calc_zoom_coords\<close>
  returned \<open>(None, None)\<close>; \<open>screen_size[0]\<close> and \<open>screen_size[1]\<close> raise
  \<open>IndexError\<close> on a shorter list (\<open>draw_bounds\<close> has four items when it is
  returned, so this branch is never taken).
\<close>

definition get_necessary_lod_uncached :: "('d, 'k) env \<Rightarrow> 'k plot \<Rightarrow> (py_error + int) option" where
  "get_necessary_lod_uncached e s =
     (let image_rect = calc_virtual_screen_bbox e
      in case calc_zoom_coords e s image_rect of
           Inl err \<Rightarrow> Some (Inl err)
         | Inr None \<Rightarrow> Some (Inl TypeError)
         | Inr (Some (index_bnds, screen_rect)) \<Rightarrow>
             (case drop 2 screen_rect of
                sw # sh # _ \<Rightarrow>
                  map_option Inr
                    (necessary_lod_loop (lod_bounds_from_nominal_bounds e) index_bnds sw sh
                       (maximum_lod s)
                       (lod_bounds_from_nominal_bounds e index_bnds (maximum_lod s)))
              | _ \<Rightarrow> Some (Inl IndexError)))"

text \<open>
  The decorated getter, which every read of the property \<open>necessary_lod\<close> calls:
  it returns the cached value when there is one, and otherwise runs the function
  and caches what it returns (nothing is cached when the function raises). The
  result is the value or the exception, together with the plot as the read left it.
\<close>

definition get_necessary_lod ::
  "('d, 'k) env \<Rightarrow> 'k plot \<Rightarrow> ((py_error + int) \<times> 'k plot) option" where
  "get_necessary_lod e s =
     (case necessary_lod_cache s of
        Some v \<Rightarrow> Some (Inr v, s)
      | None \<Rightarrow>
          (case get_necessary_lod_uncached e s of
             None \<Rightarrow> None
           | Some (Inl err) \<Rightarrow> Some (Inl err, s)
           | Some (Inr v) \<Rightarrow> Some (Inr v, s\<lparr>necessary_lod_cache := Some v\<rparr>)))"

text \<open>
  The property is declared with \<open>depends_on="draw_size[]"\<close>: the notification of
  a change of \<open>draw_size\<close>, or of its items, drops the cached value. Nothing
  else does.
\<close>

definition draw_size_changed :: "'k plot \<Rightarrow> 'k plot" where
  "draw_size_changed s = s\<lparr>necessary_lod_cache := None\<rparr>"

text \<open>
  The condition under which the loop stops at \<open>l\<close>: the bounds of the LOD image
  span at least the screen size in both dimensions.
\<close>

definition spans_screen ::
  "(index_bounds \<Rightarrow> int \<Rightarrow> index_bounds) \<Rightarrow> index_bounds \<Rightarrow> rat \<Rightarrow> rat \<Rightarrow> int \<Rightarrow> bool" where
  "spans_screen f index_bnds sw sh l =
     (case f index_bnds l of (col_min, col_max, row_min, row_max) \<Rightarrow>
        sw \<le> of_int (col_max - col_min) \<and> sh \<le> of_int (row_max - row_min))"

text \<open>
  \<open>r\<close> is the first level, counting down from \<open>l\<close>, at which the bounds span
  the screen.
\<close>

definition first_spanning ::
  "(index_bounds \<Rightarrow> int \<Rightarrow> index_bounds) \<Rightarrow> index_bounds \<Rightarrow> rat \<Rightarrow> rat \<Rightarrow> int \<Rightarrow> int \<Rightarrow> bool" where
  "first_spanning f ib sw sh l r =
     (r \<le> l \<and> spans_screen f ib sw sh r \<and>
      (\<forall>l'. r < l' \<and> l' \<le> l \<longrightarrow> \<not> spans_screen f ib sw sh l'))"

text \<open>
  The same condition read off the plot: \<open>l\<close> suffices when the bounds that
  \<open>value.lod_bounds_from_nominal_bounds(index_bounds, l)\<close> returns for the current
  zoom coordinates are at least as wide as the screen width \<open>screen_rect[2]\<close> and at
  least as high as the screen height \<open>screen_rect[3]\<close>.
\<close>

definition lod_suffices :: "('d, 'k) env \<Rightarrow> 'k plot \<Rightarrow> int \<Rightarrow> bool" where
  "lod_suffices e s l =
     (case calc_zoom_coords e s (calc_virtual_screen_bbox e) of
        Inr (Some (index_bnds, screen_rect)) \<Rightarrow>
          (case lod_bounds_from_nominal_bounds e index_bnds l of
             (col_min, col_max, row_min, row_max) \<Rightarrow>
               screen_rect ! 2 \<le> of_int (col_max - col_min) \<and>
               screen_rect ! 3 \<le> of_int (row_max - row_min))
      | _ \<Rightarrow> False)"

text \<open>The function gets as far as its loop: \<open>_calc_zoom_coords\<close> returned bounds.\<close>

definition reaches_loop :: "('d, 'k) env \<Rightarrow> 'k plot \<Rightarrow> bool" where
  "reaches_loop e s =
     (case calc_zoom_coords e s (calc_virtual_screen_bbox e) of
        Inr (Some z) \<Rightarrow> True
      | _ \<Rightarrow> False)"

section \<open>Trait notifications and handlers\<close>

definition request_redraw :: "'k plot \<Rightarrow> 'k plot" where
  "request_redraw s = s\<lparr>redraw_requests := Suc (redraw_requests s)\<rparr>"

definition invalidate_draw :: "'k plot \<Rightarrow> 'k plot" where
  "invalidate_draw s =
     s\<lparr>image_cache_valid := False,
       super_invalidate_draws := Suc (super_invalidate_draws s)\<rparr>"

definition handle_lod_level_change :: "'k plot \<Rightarrow> 'k plot" where
  "handle_lod_level_change s = invalidate_draw s"

definition handle_new_cached :: "'k plot \<Rightarrow> 'k plot" where
  "handle_new_cached s = request_redraw s"

fun ui_handler :: "ui_event \<Rightarrow> 'k plot \<Rightarrow> 'k plot" where
  "ui_handler LodChanged s = handle_lod_level_change s"
| "ui_handler NewCacheReady s = handle_new_cached s"

text \<open>
  A handler registered with \<open>dispatch="ui"\<close> runs at once when the trait changes on
  the GUI thread; from any other thread it is put on the GUI event loop.
\<close>

definition dispatch_ui :: "thread \<Rightarrow> ui_event \<Rightarrow> 'k plot \<Rightarrow> 'k plot" where
  "dispatch_ui th ev s =
     (if th = UIThread then ui_handler ev s else s\<lparr>ui_queue := ui_queue s @ [ev]\<rparr>)"

text \<open>The GUI event loop runs the handlers on its queue, in order.\<close>

definition drain_ui :: "'k plot \<Rightarrow> 'k plot" where
  "drain_ui s = fold ui_handler (ui_queue s) (s\<lparr>ui_queue := []\<rparr>)"

text \<open>
  Assigning \<open>lod\<close>: the \<open>Int\<close> trait notifies \<open>handle_lod_level_change\<close> only when
  the value changes. Assigning the \<open>Event\<close> trait \<open>new_cache_ready\<close> always notifies
  \<open>handle_new_cached\<close>.
\<close>

definition set_lod :: "thread \<Rightarrow> int \<Rightarrow> 'k plot \<Rightarrow> 'k plot" where
  "set_lod th v s = (if v = lod s then s else dispatch_ui th LodChanged (s\<lparr>lod := v\<rparr>))"

definition fire_new_cache_ready :: "thread \<Rightarrow> 'k plot \<Rightarrow> 'k plot" where
  "fire_new_cache_ready th s = dispatch_ui th NewCacheReady s"

definition handle_draw_bounds_change :: "thread \<Rightarrow> 'k plot \<Rightarrow> 'k plot" where
  "handle_draw_bounds_change th s =
     (let s1 = set_lod th (maximum_lod s) s;
          s2 = s1\<lparr>pending_operations := []\<rparr>
      in invalidate_draw s2)"

section \<open>\<open>_render\<close>\<close>

text \<open>
  \<open>Serializer.submit\<close> belongs to the encore library; it is modelled as appending
  the job to the queue \<open>_pending_operations\<close> that \<open>handle_draw_bounds_change\<close>
  clears.
\<close>

definition serializer_submit :: "job \<Rightarrow> 'k plot \<Rightarrow> 'k plot" where
  "serializer_submit j s = s\<lparr>pending_operations := pending_operations s @ [j]\<rparr>"

text \<open>
  \<open>_render_image_in_rect\<close> returns at once on a \<open>None\<close> image and unpacks
  \<open>screen_rect\<close> into four numbers, which raises \<open>TypeError\<close> on \<open>None\<close> and
  \<open>ValueError\<close> on another length. Its calls on the graphics context are recorded
  as one entry of \<open>gc_draws\<close>; the transformations of the context are not modelled.
  The second component of the result is the exception raised, if any.
\<close>

definition render_image_in_rect ::
  "'k plot \<Rightarrow> 'k option \<Rightarrow> rat list option \<Rightarrow> 'k plot \<times> py_error option" where
  "render_image_in_rect s kiva_array screen_rect =
     (case kiva_array of
        None \<Rightarrow> (s, None)
      | Some img \<Rightarrow>
          (case screen_rect of
             None \<Rightarrow> (s, Some TypeError)
           | Some [x, y, w, h] \<Rightarrow> (s\<lparr>gc_draws := gc_draws s @ [(img, [x, y, w, h])]\<rparr>, None)
           | Some _ \<Rightarrow> (s, Some ValueError)))"

definition render :: "'k plot \<Rightarrow> 'k plot \<times> py_error option" where
  "render s =
     (let s1 = (if \<not> image_cache_valid s then serializer_submit ComputeCachedImage s else s)
      in case cached_image s1 of
           Some img \<Rightarrow> render_image_in_rect s1 (Some img) (cached_dest_rect s1)
         | None \<Rightarrow> (s1, None))"

text \<open>
  \<open>n\<close> calls of \<open>_render\<close> in a row, nothing else happening in between; a call
  that raises leaves the plot as far as it got.
\<close>

fun renders :: "nat \<Rightarrow> 'k plot \<Rightarrow> 'k plot" where
  "renders 0 s = s"
| "renders (Suc n) s = renders n (fst (render s))"

section \<open>\<open>_compute_cached_image\<close>\<close>

definition get_data_slice ::
  "('d, 'k) env \<Rightarrow> 'k plot \<Rightarrow> index_bounds option \<Rightarrow> ('d \<Rightarrow> 'd) option \<Rightarrow> 'd" where
  "get_data_slice e s index_bnds mapper =
     (let data = get_data_bounded e index_bnds (lod s)
      in case mapper of
           Some m \<Rightarrow> if data_size e data > 0 then m data else data
         | None \<Rightarrow> data)"

text \<open>
  The result is \<open>None\<close> when the run never returns (the loop behind the
  \<open>necessary_lod\<close> property), and otherwise the plot as the run left it together with
  the exception it raised, if any.
\<close>

definition compute_cached_image ::
  "thread \<Rightarrow> ('d, 'k) env \<Rightarrow> ('d \<Rightarrow> 'd) option \<Rightarrow> 'k plot
     \<Rightarrow> ('k plot \<times> py_error option) option" where
  "compute_cached_image th e mapper s =
     (let virtual_rect = calc_virtual_screen_bbox e
      in case calc_zoom_coords e s virtual_rect of
           Inl err \<Rightarrow> Some (s, Some err)
         | Inr z \<Rightarrow>
             let index_bnds = map_option fst z;
                 screen_rect = map_option snd z;
                 data = get_data_slice e s index_bnds mapper;
                 s1 = s\<lparr>cached_image := Some (kiva_array_from_numpy_array e data),
                        cached_dest_rect := screen_rect,
                        image_cache_valid := True\<rparr>;
                 s2 = fire_new_cache_ready th s1
             in case get_necessary_lod e s2 of
                  None \<Rightarrow> None
                | Some (Inl err, s3) \<Rightarrow> Some (s3, Some err)
                | Some (Inr nl, s3) \<Rightarrow>
                    Some (if lod s3 > nl then set_lod th (lod s3 - 1) s3 else s3, None))"

text \<open>
  The plot after the three assignments and the \<open>new_cache_ready\<close> event of a run
  of \<open>_compute_cached_image\<close> for which \<open>_calc_zoom_coords\<close> returned \<open>z\<close>.
\<close>

definition cache_filled ::
  "thread \<Rightarrow> ('d, 'k) env \<Rightarrow> ('d \<Rightarrow> 'd) option \<Rightarrow> 'k plot
     \<Rightarrow> (index_bounds \<times> rat list) option \<Rightarrow> 'k plot" where
  "cache_filled th e mapper s z =
     fire_new_cache_ready th
       (s\<lparr>cached_image :=
            Some (kiva_array_from_numpy_array e (get_data_slice e s (map_option fst z) mapper)),
          cached_dest_rect := map_option snd z,
          image_cache_valid := True\<rparr>)"

text \<open>
  The plot that a run leaves when \<open>_calc_zoom_coords\<close> returned \<open>z\<close> and the read
  of \<open>necessary_lod\<close> returned \<open>nl\<close>.
\<close>

definition run_result ::
  "thread \<Rightarrow> ('d, 'k) env \<Rightarrow> ('d \<Rightarrow> 'd) option \<Rightarrow> 'k plot
     \<Rightarrow> (index_bounds \<times> rat list) option \<Rightarrow> int \<Rightarrow> 'k plot" where
  "run_result th e mapper s z nl =
     (let s3 = (cache_filled th e mapper s z)\<lparr>necessary_lod_cache := Some nl\<rparr>
      in if nl < lod s then set_lod th (lod s - 1) s3 else s3)"

text \<open>
  Two plots show the same view: they agree on what \<open>_calc_zoom_coords\<close> and the
  function behind \<open>necessary_lod\<close> read.
\<close>

definition same_view :: "'k plot \<Rightarrow> 'k plot \<Rightarrow> bool" where
  "same_view s s' =
     (draw_bounds s' = draw_bounds s \<and> bounds s' = bounds s \<and>
      x_axis_is_flipped s' = x_axis_is_flipped s \<and>
      y_axis_is_flipped s' = y_axis_is_flipped s \<and>
      maximum_lod s' = maximum_lod s)"


section \<open>Module level: the guarded import of encore\<close>

text \<open>
  The \<open>try\<close> statement at the top of \<open>lod_image_plot.py\<close>. Each of its two
  \<open>from ... import\<close> statements succeeds, raises \<open>ImportError\<close>, or raises
  something that \<open>except ImportError\<close> does not catch.
\<close>

datatype import_outcome = Imported | RaisesImportError | RaisesOther

datatype module_result = Continues | SysExit string | Propagates

definition import_encore :: "import_outcome \<Rightarrow> import_outcome \<Rightarrow> module_result" where
  "import_encore serializer_import executor_import =
     (case serializer_import of
        RaisesImportError \<Rightarrow> SysExit ''encore must be installed to use LODImagePlot''
      | RaisesOther \<Rightarrow> Propagates
      | Imported \<Rightarrow>
          (case executor_import of
             RaisesImportError \<Rightarrow> SysExit ''encore must be installed to use LODImagePlot''
           | RaisesOther \<Rightarrow> Propagates
           | Imported \<Rightarrow> Continues))"

section \<open>\<open>chaco/data_label.py\<close>\<close>

text \<open>
  A module is the map from the names it defines to objects. \<open>from m import a, b\<close>
  binds each name to the object that \<open>m\<close> holds under it and raises
  \<open>ImportError\<close> on a name that \<open>m\<close> lacks. \<open>warnings.warn\<close> is recorded in the
  list of warnings issued; the warning filters are not modelled.
\<close>

type_synonym 'o namespace = "string \<rightharpoonup> 'o"

datatype warning_category = DeprecationWarning | UserWarning

record warning =
  message :: string
  category :: warning_category
  stacklevel :: nat

fun from_import :: "'o namespace \<Rightarrow> string list \<Rightarrow> 'o namespace \<Rightarrow> py_error + 'o namespace" where
  "from_import m [] ns = Inr ns"
| "from_import m (n # names) ns =
     (case m n of
        None \<Rightarrow> Inl ImportError
      | Some obj \<Rightarrow> from_import m names (ns(n \<mapsto> obj)))"

definition deprecation_message :: string where
  "deprecation_message =
     ''Importing DataLabel, draw_arrow, or find_region from this module is '' @
     ''deprecated. Please use chaco.api or chaco.overlays.api instead. This '' @
     ''module will be removed in the next major release.''"

text \<open>
  Running the module body: \<open>warnings_module\<close> is the object that
  \<open>import warnings\<close> binds, \<open>overlays_data_label\<close> the module
  \<open>chaco.overlays.data_label\<close>, \<open>issued\<close> the warnings issued so far. The result
  is the namespace of \<open>chaco.data_label\<close> and the warnings issued afterwards.
\<close>

definition data_label_module ::
  "'o \<Rightarrow> 'o namespace \<Rightarrow> warning list \<Rightarrow> py_error + ('o namespace \<times> warning list)" where
  "data_label_module warnings_module overlays_data_label issued =
     (case from_import overlays_data_label [''DataLabel'', ''draw_arrow'', ''find_region'']
             [''warnings'' \<mapsto> warnings_module] of
        Inl err \<Rightarrow> Inl err
      | Inr ns \<Rightarrow>
          Inr (ns, issued @ [\<lparr>message = deprecation_message,
                              category = DeprecationWarning,
                              stacklevel = 2\<rparr>]))"

section \<open>Example inputs\<close>

text \<open>
  An image source of 1025 by 1025 pixels whose LOD \<open>l\<close> divides every nominal index
  by \<open>2 ^ l\<close>, drawn into a 100 by 100 screen rectangle that shows all of it.
\<close>

definition example_lod_bounds :: "index_bounds \<Rightarrow> int \<Rightarrow> index_bounds" where
  "example_lod_bounds b l =
     (case b of (col_min, col_max, row_min, row_max) \<Rightarrow>
        (col_min div 2 ^ nat l, col_max div 2 ^ nat l,
         row_min div 2 ^ nat l, row_max div 2 ^ nat l))"

definition example_env :: "(int, int) env" where
  "example_env =
     \<lparr>get_width = 1025, get_height = 1025,
      lod_bounds_from_nominal_bounds = example_lod_bounds,
      get_data_bounded = (\<lambda>b l. l),
      data_size = (\<lambda>d. 1),
      kiva_array_from_numpy_array = (\<lambda>d. d),
      calc_virtual_screen_bbox = (0, 0, 100, 100)\<rparr>"

definition example_plot :: "int plot" where
  "example_plot =
     \<lparr>draw_bounds = [0, 0, 100, 100], draw_size = [100, 100], bounds = [100, 100],
      lod = 4, maximum_lod = 4,
      x_axis_is_flipped = False, y_axis_is_flipped = False,
      image_cache_valid = True, cached_image = None, cached_dest_rect = None,
      pending_operations = [], ui_queue = [],
      redraw_requests = 0, super_invalidate_draws = 0, gc_draws = [],
      necessary_lod_cache = None\<rparr>"

text \<open>A source whose LOD images are empty at every level.\<close>

definition empty_env :: "(int, int) env" where
  "empty_env = example_env\<lparr>lod_bounds_from_nominal_bounds := (\<lambda>b l. (0, 0, 0, 0))\<rparr>"

text \<open>
  A 10 by 10 image whose rendered rectangle lies to the right of the 500 by 500
  drawing area: the image has been panned out of view.
\<close>

definition offscreen_env :: "(int, int) env" where
  "offscreen_env =
     example_env\<lparr>get_width := 10, get_height := 10,
                 calc_virtual_screen_bbox := (1000, 0, 100, 100)\<rparr>"

definition offscreen_plot :: "int plot" where
  "offscreen_plot = example_plot\<lparr>draw_bounds := [0, 0, 500, 500], bounds := [500, 500]\<rparr>"

text \<open>
  The example plot after a read of \<open>necessary_lod\<close> has cached level 3, and the
  same source zoomed in by a factor of two: the rendered image is now 200 by 200
  pixels, the drawing area still 100 by 100, and \<open>draw_size\<close> has not changed.
\<close>

definition cached_plot :: "int plot" where
  "cached_plot = example_plot\<lparr>necessary_lod_cache := Some 3\<rparr>"

definition zoomed_env :: "(int, int) env" where
  "zoomed_env = example_env\<lparr>calc_virtual_screen_bbox := (0, 0, 200, 200)\<rparr>"

text \<open>
  A source whose data slice records the index bounds and the level it was asked
  for, a kiva conversion that marks its array with a leading 0, a mapper that adds
  1 to every value, and a plot at level 4 below a maximum of 5.
\<close>

definition slice_env :: "(int list, int list) env" where
  "slice_env =
     \<lparr>get_width = 1025, get_height = 1025,
      lod_bounds_from_nominal_bounds = example_lod_bounds,
      get_data_bounded =
        (\<lambda>b l. case b of
                  None \<Rightarrow> []
                | Some (col_min, col_max, row_min, row_max) \<Rightarrow>
                    [col_min, col_max, row_min, row_max, l]),
      data_size = length,
      kiva_array_from_numpy_array = (\<lambda>d. 0 # d),
      calc_virtual_screen_bbox = (0, 0, 100, 100)\<rparr>"

definition slice_mapper :: "int list \<Rightarrow> int list" where
  "slice_mapper d = map (\<lambda>x. x + 1) d"

definition slice_plot :: "int list plot" where
  "slice_plot =
     \<lparr>draw_bounds = [0, 0, 100, 100], draw_size = [100, 100], bounds = [100, 100],
      lod = 4, maximum_lod = 5,
      x_axis_is_flipped = False, y_axis_is_flipped = False,
      image_cache_valid = False, cached_image = None, cached_dest_rect = None,
      pending_operations = [], ui_queue = [],
      redraw_requests = 0, super_invalidate_draws = 0, gc_draws = [],
      necessary_lod_cache = None\<rparr>"

text \<open>A plot at level 2 with a valid cache and one job waiting in the serializer.\<close>

definition busy_plot :: "int plot" where
  "busy_plot = example_plot\<lparr>lod := 2, pending_operations := [ComputeCachedImage]\<rparr>"

text \<open>A module \<open>chaco.overlays.data_label\<close> with the three names and one more.\<close>

definition example_overlays :: "nat namespace" where
  "example_overlays =
     [''DataLabel'' \<mapsto> 1, ''draw_arrow'' \<mapsto> 2, ''find_region'' \<mapsto> 3, ''other'' \<mapsto> 4]"

section \<open>The necessary LOD\<close>

lemma calc_zoom_coords_screen_rect:
  assumes "calc_zoom_coords e s image_rect = Inr (Some (ib, sr))"
  shows "sr = draw_bounds s \<and> (\<exists>x y w h. draw_bounds s = [x, y, w, h])"
  using assms unfolding calc_zoom_coords_def Let_def
  by (auto split: list.splits if_splits prod.splits)

lemma loop_unfold:
  "necessary_lod_loop f ib sw sh l (f ib l) =
     (if spans_screen f ib sw sh l then Some l
      else necessary_lod_loop f ib sw sh (l - 1) (f ib (l - 1)))"
  by (subst necessary_lod_loop.simps)
     (auto simp: spans_screen_def not_less not_le split: prod.splits)


lemma loop_sound_aux:
  assumes "necessary_lod_loop f ib sw sh l b = Some r"
  shows "b = f ib l \<longrightarrow> first_spanning f ib sw sh l r"
proof (rule necessary_lod_loop.raw_induct
    [where P = "\<lambda>f ib sw sh l b r. b = f ib l \<longrightarrow> first_spanning f ib sw sh l r", OF _ assms])
  fix g :: "(index_bounds \<Rightarrow> int \<Rightarrow> index_bounds) \<Rightarrow> index_bounds \<Rightarrow> rat \<Rightarrow> rat
     \<Rightarrow> int \<Rightarrow> index_bounds \<Rightarrow> int option"
  fix f ib sw sh l b r
  assume IH: "\<And>f ib sw sh l b r. g f ib sw sh l b = Some r \<Longrightarrow>
                b = f ib l \<longrightarrow> first_spanning f ib sw sh l r"
  assume body: "(case b of (col_min, col_max, row_min, row_max) \<Rightarrow>
        if of_int (col_max - col_min) < sw \<or> of_int (row_max - row_min) < sh
        then g f ib sw sh (l - 1) (f ib (l - 1))
        else Some l) = Some r"
  show "b = f ib l \<longrightarrow> first_spanning f ib sw sh l r"
  proof
    assume b: "b = f ib l"
    show "first_spanning f ib sw sh l r"
    proof (cases "spans_screen f ib sw sh l")
      case True
      with body b have "r = l"
        by (auto simp: spans_screen_def not_less not_le split: prod.splits if_splits)
      with True show ?thesis by (auto simp: first_spanning_def)
    next
      case False
      with body b have "g f ib sw sh (l - 1) (f ib (l - 1)) = Some r"
        by (auto simp: spans_screen_def not_less not_le split: prod.splits if_splits)
      from IH[OF this] have fs: "first_spanning f ib sw sh (l - 1) r" by simp
      show ?thesis
        unfolding first_spanning_def
      proof (intro conjI allI impI)
        show "r \<le> l" using fs by (simp add: first_spanning_def)
        show "spans_screen f ib sw sh r" using fs by (simp add: first_spanning_def)
        fix l' assume "r < l' \<and> l' \<le> l"
        then show "\<not> spans_screen f ib sw sh l'"
          using fs False by (cases "l' = l") (auto simp: first_spanning_def)
      qed
    qed
  qed
qed

lemma loop_first_spanning:
  "necessary_lod_loop f ib sw sh l (f ib l) = Some r \<Longrightarrow> first_spanning f ib sw sh l r"
  using loop_sound_aux by blast

lemma loop_returns:
  "spans_screen f ib sw sh r \<Longrightarrow> r \<le> l \<Longrightarrow> n = nat (l - r) \<Longrightarrow>
     \<exists>r'. necessary_lod_loop f ib sw sh l (f ib l) = Some r'"
proof (induction n arbitrary: l)
  case 0
  then have "l = r" by simp
  with 0 show ?case by (simp add: loop_unfold)
next
  case (Suc n)
  show ?case
  proof (cases "spans_screen f ib sw sh l")
    case True
    then show ?thesis by (simp add: loop_unfold)
  next
    case False
    from Suc.prems have "r \<le> l - 1" "n = nat (l - 1 - r)" by auto
    from Suc.IH[OF Suc.prems(1) this] False show ?thesis
      by (simp add: loop_unfold)
  qed
qed

lemma loop_returns_iff:
  "(\<exists>r. necessary_lod_loop f ib sw sh l (f ib l) = Some r) = (\<exists>r\<le>l. spans_screen f ib sw sh r)"
proof
  assume "\<exists>r. necessary_lod_loop f ib sw sh l (f ib l) = Some r"
  then obtain r where "necessary_lod_loop f ib sw sh l (f ib l) = Some r" ..
  from loop_first_spanning[OF this] show "\<exists>r\<le>l. spans_screen f ib sw sh r"
    by (auto simp: first_spanning_def)
next
  assume "\<exists>r\<le>l. spans_screen f ib sw sh r"
  then obtain r where "r \<le> l" "spans_screen f ib sw sh r" by blast
  from loop_returns[OF this(2,1) refl] show "\<exists>r. necessary_lod_loop f ib sw sh l (f ib l) = Some r" .
qed

text \<open>The function is its loop once \<open>_calc_zoom_coords\<close> has returned bounds.\<close>

lemma get_necessary_lod_uncached_loop:
  assumes "calc_zoom_coords e s (calc_virtual_screen_bbox e) = Inr (Some (ib, sr))"
  shows "get_necessary_lod_uncached e s =
           map_option Inr (necessary_lod_loop (lod_bounds_from_nominal_bounds e) ib (sr ! 2) (sr ! 3)
              (maximum_lod s) (lod_bounds_from_nominal_bounds e ib (maximum_lod s)))"
proof -
  from calc_zoom_coords_screen_rect[OF assms] obtain x y w h where
    "sr = [x, y, w, h]" by auto
  with assms show ?thesis by (simp add: get_necessary_lod_uncached_def)
qed

lemma lod_suffices_spans:
  assumes "calc_zoom_coords e s (calc_virtual_screen_bbox e) = Inr (Some (ib, sr))"
  shows "lod_suffices e s l = spans_screen (lod_bounds_from_nominal_bounds e) ib (sr ! 2) (sr ! 3) l"
  using assms by (simp add: lod_suffices_def spans_screen_def)

lemma get_necessary_lod_uncached_InrD:
  assumes "get_necessary_lod_uncached e s = Some (Inr r)"
  shows "\<exists>ib sr. calc_zoom_coords e s (calc_virtual_screen_bbox e) = Inr (Some (ib, sr))"
  using assms unfolding get_necessary_lod_uncached_def Let_def
  by (auto split: sum.splits option.splits list.splits prod.splits)

text \<open>
  What a run of the function behind the property computes: when it returns
  \<open>r\<close>, then \<open>r\<close> does not exceed
  \<open>maximum_lod\<close>, the LOD bounds at \<open>r\<close> span at least the screen width and the
  screen height, and no level above \<open>r\<close> up to \<open>maximum_lod\<close> does: \<open>r\<close> is the
  first sufficient level counting down from \<open>maximum_lod\<close>, and the largest
  sufficient level not exceeding \<open>maximum_lod\<close>.
\<close>

lemma uncached_largest_sufficient:
  assumes "get_necessary_lod_uncached e s = Some (Inr r)"
  shows "r \<le> maximum_lod s \<and> lod_suffices e s r \<and>
         (\<forall>l. r < l \<and> l \<le> maximum_lod s \<longrightarrow> \<not> lod_suffices e s l) \<and>
         (GREATEST l. l \<le> maximum_lod s \<and> lod_suffices e s l) = r"
proof -
  from get_necessary_lod_uncached_InrD[OF assms] obtain ib sr where
    z: "calc_zoom_coords e s (calc_virtual_screen_bbox e) = Inr (Some (ib, sr))" by blast
  let ?f = "lod_bounds_from_nominal_bounds e"
  from assms have "necessary_lod_loop ?f ib (sr ! 2) (sr ! 3) (maximum_lod s)
      (?f ib (maximum_lod s)) = Some r"
    by (auto simp: get_necessary_lod_uncached_loop[OF z])
  from loop_first_spanning[OF this]
  have fs: "first_spanning ?f ib (sr ! 2) (sr ! 3) (maximum_lod s) r" .
  have 1: "r \<le> maximum_lod s" using fs by (simp add: first_spanning_def)
  have 2: "lod_suffices e s r" using fs by (simp add: first_spanning_def lod_suffices_spans[OF z])
  have 3: "\<forall>l. r < l \<and> l \<le> maximum_lod s \<longrightarrow> \<not> lod_suffices e s l"
    using fs by (simp add: first_spanning_def lod_suffices_spans[OF z])
  have 4: "(GREATEST l. l \<le> maximum_lod s \<and> lod_suffices e s l) = r"
  proof (rule Greatest_equality)
    show "r \<le> maximum_lod s \<and> lod_suffices e s r" using 1 2 by simp
    fix y assume "y \<le> maximum_lod s \<and> lod_suffices e s y"
    with 3 show "y \<le> r" by (meson not_le)
  qed
  from 1 2 3 4 show ?thesis by blast
qed

text \<open>
  Claim C7. Once \<open>_get_necessary_lod\<close> has reached its loop, which it does only
  on a read that finds no cached value, it returns a level if and only if some
  level not exceeding \<open>maximum_lod\<close> suffices, and it never returns (the loop
  decrements \<open>lod\<close> for ever) if and only if no such level exists.
\<close>

theorem necessary_lod_terminates_iff:
  assumes "reaches_loop e s"
  shows "((\<exists>r. get_necessary_lod_uncached e s = Some (Inr r)) = (\<exists>l\<le>maximum_lod s. lod_suffices e s l)) \<and>
         ((get_necessary_lod_uncached e s = None) = (\<not> (\<exists>l\<le>maximum_lod s. lod_suffices e s l)))"
proof -
  from assms obtain ib sr where
    z: "calc_zoom_coords e s (calc_virtual_screen_bbox e) = Inr (Some (ib, sr))"
    by (auto simp: reaches_loop_def split: sum.splits option.splits)
  let ?loop = "necessary_lod_loop (lod_bounds_from_nominal_bounds e) ib (sr ! 2) (sr ! 3)
      (maximum_lod s) (lod_bounds_from_nominal_bounds e ib (maximum_lod s))"
  have g: "get_necessary_lod_uncached e s = map_option Inr ?loop"
    by (rule get_necessary_lod_uncached_loop[OF z])
  have iff: "(\<exists>r. ?loop = Some r) = (\<exists>l\<le>maximum_lod s. lod_suffices e s l)"
    by (simp add: loop_returns_iff lod_suffices_spans[OF z])
  have a: "(\<exists>r. get_necessary_lod_uncached e s = Some (Inr r)) = (\<exists>r. ?loop = Some r)"
    unfolding g by auto
  have b: "(get_necessary_lod_uncached e s = None) = (\<not> (\<exists>r. ?loop = Some r))"
    unfolding g by auto
  from a b iff show ?thesis by simp
qed

lemma example_zoom_coords:
  "calc_zoom_coords example_env example_plot (calc_virtual_screen_bbox example_env) =
     Inr (Some ((0, 1024, 0, 1024), [0, 0, 100, 100]))"
  by (simp add: calc_zoom_coords_def example_env_def example_plot_def py_int_def)

lemma example_necessary_lod: "get_necessary_lod_uncached example_env example_plot = Some (Inr 3)"
  by (simp add: get_necessary_lod_uncached_def example_zoom_coords)
     (simp add: example_env_def example_plot_def necessary_lod_loop.simps example_lod_bounds_def)

lemma empty_zoom_coords:
  "calc_zoom_coords empty_env example_plot (calc_virtual_screen_bbox empty_env) =
     Inr (Some ((0, 1024, 0, 1024), [0, 0, 100, 100]))"
  by (simp add: calc_zoom_coords_def empty_env_def example_env_def example_plot_def py_int_def)

text \<open>
  At the example plot the function returns 3: level 3 has 128 columns and rows for a
  screen of 100 by 100, level 4 has 64.
\<close>

lemma uncached_largest_sufficient_example:
  "get_necessary_lod_uncached example_env example_plot = Some (Inr 3) \<and>
   lod_suffices example_env example_plot 3 \<and>
   \<not> lod_suffices example_env example_plot 4 \<and>
   (GREATEST l. l \<le> maximum_lod example_plot \<and> lod_suffices example_env example_plot l) = 3"
  using uncached_largest_sufficient [OF example_necessary_lod] example_necessary_lod
  by (simp add: example_plot_def)

text \<open>
  The example plot returns; on the source whose LOD images are all empty the
  function never returns.
\<close>

theorem necessary_lod_terminates_iff_witness:
  "reaches_loop example_env example_plot \<and>
   (\<exists>r. get_necessary_lod_uncached example_env example_plot = Some (Inr r)) \<and>
   reaches_loop empty_env example_plot \<and>
   get_necessary_lod_uncached empty_env example_plot = None"
proof -
  have r1: "reaches_loop example_env example_plot"
    by (simp add: reaches_loop_def example_zoom_coords)
  have r2: "reaches_loop empty_env example_plot"
    by (simp add: reaches_loop_def empty_zoom_coords)
  have s1: "\<exists>l\<le>maximum_lod example_plot. lod_suffices example_env example_plot l"
  proof (intro exI conjI)
    show "lod_suffices example_env example_plot 3"
      by (simp add: lod_suffices_def example_zoom_coords)
         (simp add: example_env_def example_lod_bounds_def)
    show "3 \<le> maximum_lod example_plot" by (simp add: example_plot_def)
  qed
  have s2: "\<not> (\<exists>l\<le>maximum_lod example_plot. lod_suffices empty_env example_plot l)"
    by (simp add: lod_suffices_def empty_zoom_coords) (simp add: empty_env_def)
  from necessary_lod_terminates_iff [OF r1] necessary_lod_terminates_iff [OF r2] r1 r2 s1 s2
  show ?thesis by blast
qed

section \<open>The cached property\<close>

text \<open>What \<open>_calc_zoom_coords\<close> and the function behind the property read.\<close>

lemma calc_zoom_coords_same_view:
  assumes "same_view s s'"
  shows "calc_zoom_coords e s' r = calc_zoom_coords e s r"
proof -
  from assms have eqs: "draw_bounds s' = draw_bounds s" "bounds s' = bounds s"
    "x_axis_is_flipped s' = x_axis_is_flipped s" "y_axis_is_flipped s' = y_axis_is_flipped s"
    by (simp_all add: same_view_def)
  show ?thesis unfolding calc_zoom_coords_def eqs ..
qed

lemma get_necessary_lod_uncached_same_view:
  assumes "same_view s s'"
  shows "get_necessary_lod_uncached e s' = get_necessary_lod_uncached e s"
proof -
  from assms have eq: "maximum_lod s' = maximum_lod s" by (simp add: same_view_def)
  show ?thesis
    unfolding get_necessary_lod_uncached_def calc_zoom_coords_same_view[OF assms] eq ..
qed


lemma same_view_trans: "same_view s s' \<Longrightarrow> same_view s' s'' \<Longrightarrow> same_view s s''"
  by (simp add: same_view_def)

lemma same_view_dispatch_ui: "same_view s (dispatch_ui th ev s)"
  by (cases ev)
     (simp_all add: same_view_def dispatch_ui_def handle_lod_level_change_def
        handle_new_cached_def invalidate_draw_def request_redraw_def)


lemma same_view_fire: "same_view s (fire_new_cache_ready th s)"
  by (simp add: fire_new_cache_ready_def same_view_dispatch_ui)

lemma lod_dispatch_ui: "lod (dispatch_ui th ev s) = lod s"
  by (cases ev)
     (simp_all add: dispatch_ui_def handle_lod_level_change_def
        handle_new_cached_def invalidate_draw_def request_redraw_def)



lemma get_necessary_lod_cached:
  "necessary_lod_cache s = Some v \<Longrightarrow> get_necessary_lod e s = Some (Inr v, s)"
  by (simp add: get_necessary_lod_def)

lemma get_necessary_lod_fresh:
  "necessary_lod_cache s = None \<Longrightarrow>
     get_necessary_lod e s =
       (case get_necessary_lod_uncached e s of
          None \<Rightarrow> None
        | Some (Inl err) \<Rightarrow> Some (Inl err, s)
        | Some (Inr v) \<Rightarrow> Some (Inr v, s\<lparr>necessary_lod_cache := Some v\<rparr>))"
  by (simp add: get_necessary_lod_def)

lemma get_necessary_lod_InrD:
  assumes "get_necessary_lod e s = Some (Inr nl, s1)"
  shows "s1 = s\<lparr>necessary_lod_cache := Some nl\<rparr> \<and>
         (necessary_lod_cache s = Some nl \<or>
          necessary_lod_cache s = None \<and> get_necessary_lod_uncached e s = Some (Inr nl))"
proof (cases "necessary_lod_cache s")
  case None
  with assms show ?thesis
    by (auto simp: get_necessary_lod_fresh split: option.splits sum.splits)
next
  case (Some v)
  with assms have "v = nl" "s1 = s" by (simp_all add: get_necessary_lod_cached)
  with Some show ?thesis by simp
qed

lemma zoomed_zoom_coords:
  "calc_zoom_coords zoomed_env cached_plot (calc_virtual_screen_bbox zoomed_env) =
     Inr (Some ((0, 512, 0, 512), [0, 0, 100, 100]))"
  by (simp add: calc_zoom_coords_def zoomed_env_def cached_plot_def example_env_def
      example_plot_def py_int_def)

lemma zoomed_uncached: "get_necessary_lod_uncached zoomed_env cached_plot = Some (Inr 2)"
  by (simp add: get_necessary_lod_uncached_def zoomed_zoom_coords)
     (simp add: zoomed_env_def cached_plot_def example_env_def example_plot_def
        necessary_lod_loop.simps example_lod_bounds_def)

lemma zoomed_suffices:
  "lod_suffices zoomed_env cached_plot l = (100 \<le> 512 div (2::int) ^ nat l)"
  by (simp add: lod_suffices_def zoomed_zoom_coords)
     (simp add: zoomed_env_def example_env_def example_lod_bounds_def)

text \<open>
  Claim C1. The claim says that the property \<open>necessary_lod\<close> equals the largest
  level not exceeding \<open>maximum_lod\<close> whose LOD bounds span the screen. A read on
  the example plot returns 3 and caches it. After zooming in by a factor of two,
  with \<open>draw_size\<close> unchanged, the property still returns the cached 3, although
  level 3 no longer spans the screen and level 2 is now the largest level that
  does, as a run of the function itself returns. Only a change of \<open>draw_size\<close>
  makes the property return 2.
\<close>

theorem necessary_lod_stale_after_zoom:
  "get_necessary_lod example_env example_plot = Some (Inr 3, cached_plot) \<and>
   draw_size cached_plot = draw_size example_plot \<and>
   get_necessary_lod zoomed_env cached_plot = Some (Inr 3, cached_plot) \<and>
   \<not> lod_suffices zoomed_env cached_plot 3 \<and>
   lod_suffices zoomed_env cached_plot 2 \<and>
   2 \<le> maximum_lod cached_plot \<and>
   get_necessary_lod_uncached zoomed_env cached_plot = Some (Inr 2) \<and>
   get_necessary_lod zoomed_env (draw_size_changed cached_plot) =
     Some (Inr 2, cached_plot\<lparr>necessary_lod_cache := Some 2\<rparr>)"
proof -
  have c: "necessary_lod_cache example_plot = None" by (simp add: example_plot_def)
  have 1: "get_necessary_lod example_env example_plot = Some (Inr 3, cached_plot)"
    by (simp add: get_necessary_lod_fresh[OF c] example_necessary_lod cached_plot_def)
  have 2: "get_necessary_lod zoomed_env cached_plot = Some (Inr 3, cached_plot)"
    by (rule get_necessary_lod_cached) (simp add: cached_plot_def)
  have 3: "\<not> lod_suffices zoomed_env cached_plot 3" by (simp add: zoomed_suffices)
  have 4: "lod_suffices zoomed_env cached_plot 2" by (simp add: zoomed_suffices)
  have v: "same_view cached_plot (draw_size_changed cached_plot)"
    by (simp add: same_view_def draw_size_changed_def)
  have 5: "get_necessary_lod zoomed_env (draw_size_changed cached_plot) =
     Some (Inr 2, cached_plot\<lparr>necessary_lod_cache := Some 2\<rparr>)"
  proof -
    have n: "necessary_lod_cache (draw_size_changed cached_plot) = None"
      by (simp add: draw_size_changed_def)
    have u: "get_necessary_lod_uncached zoomed_env (draw_size_changed cached_plot) = Some (Inr 2)"
      by (simp add: get_necessary_lod_uncached_same_view[OF v] zoomed_uncached)
    show ?thesis
      by (simp add: get_necessary_lod_fresh[OF n] u) (simp add: draw_size_changed_def)
  qed
  from 1 2 3 4 5 zoomed_uncached show ?thesis
    by (simp add: cached_plot_def example_plot_def)
qed

section \<open>The zoom coordinates\<close>

lemma py_int_mono: "x \<le> y \<Longrightarrow> py_int x \<le> py_int y"
proof -
  assume xy: "x \<le> y"
  show ?thesis
  proof (cases "x < 0")
    case True
    show ?thesis
    proof (cases "y < 0")
      case True
      with \<open>x < 0\<close> xy show ?thesis by (simp add: py_int_def ceiling_mono)
    next
      case False
      have a: "\<lceil>x\<rceil> \<le> 0" using \<open>x < 0\<close> by simp
      have b: "0 \<le> \<lfloor>y\<rfloor>" using False by simp
      from a b have "\<lceil>x\<rceil> \<le> \<lfloor>y\<rfloor>" by linarith
      then show ?thesis using \<open>x < 0\<close> False by (simp add: py_int_def)
    qed
  next
    case False
    with xy have "\<not> y < 0" by simp
    with False xy show ?thesis by (simp add: py_int_def floor_mono)
  qed
qed

lemma py_int_nonneg: "0 \<le> x \<Longrightarrow> 0 \<le> py_int x"
  by (simp add: py_int_def)

lemma py_int_of_int: "py_int (of_int n) = n"
  by (simp add: py_int_def)

lemma calc_zoom_coords_None_iff:
  "(calc_zoom_coords e s r = Inr None) =
     (\<exists>x y w h. draw_bounds s = [x, y, w, h] \<and> (w = 0 \<or> h = 0 \<or> 0 \<in> set (bounds s)))"
  unfolding calc_zoom_coords_def Let_def
  by (auto split: list.splits prod.splits)

text \<open>
  The clipping bounds \<open>col_min\<close> and \<open>row_min\<close> from below and \<open>col_max\<close> and
  \<open>row_max\<close> from above, flipped or not.
\<close>

lemma calc_zoom_coords_clipped:
  assumes "calc_zoom_coords e s r = Inr (Some ((col_min, col_max, row_min, row_max), sr))"
  shows "sr = draw_bounds s \<and> 0 \<le> col_min \<and> col_max \<le> get_width e - 1 \<and>
         0 \<le> row_min \<and> row_max \<le> get_height e - 1"
  using assms unfolding calc_zoom_coords_def Let_def
  by (auto split: list.splits prod.splits if_splits)

text \<open>
  When the drawing rectangle meets the rendered image and the sizes are positive,
  the indices are ordered as well.
\<close>

lemma clip_ordered:
  assumes "(lo::int) \<le> hi" "0 \<le> hi" "lo \<le> n" "0 \<le> n"
  shows "max lo 0 \<le> min hi n"
  using assms by simp

lemma scaled_index_mono:
  assumes "(a::rat) \<le> b" "0 < w" "0 \<le> n"
  shows "py_int (a / w * of_int n) \<le> py_int (b / w * of_int n)"
proof (rule py_int_mono)
  from assms(1,2) have "a / w \<le> b / w" by (simp add: divide_right_mono)
  moreover have "(0::rat) \<le> of_int n" using assms(3) by simp
  ultimately show "a / w * of_int n \<le> b / w * of_int n"
    by (rule mult_right_mono)
qed

lemma calc_zoom_coords_ordered:
  assumes db: "draw_bounds s = [sub_x, sub_y, sub_width, sub_height]"
    and nz: "0 < sub_width" "0 < sub_height" "0 \<notin> set (bounds s)"
    and img: "0 < image_width" "0 < image_height"
    and arr: "1 \<le> get_width e" "1 \<le> get_height e"
    and ovx: "image_x \<le> sub_x + sub_width" "sub_x \<le> image_x + image_width"
    and ovy: "image_y \<le> sub_y + sub_height" "sub_y \<le> image_y + image_height"
  shows "\<exists>col_min col_max row_min row_max.
           calc_zoom_coords e s (image_x, image_y, image_width, image_height) =
             Inr (Some ((col_min, col_max, row_min, row_max), draw_bounds s)) \<and>
           0 \<le> col_min \<and> col_min \<le> col_max \<and> col_max \<le> get_width e - 1 \<and>
           0 \<le> row_min \<and> row_min \<le> row_max \<and> row_max \<le> get_height e - 1"
proof -
  define aw where "aw = get_width e - 1"
  define ah where "ah = get_height e - 1"
  define c0 where "c0 = py_int ((sub_x - image_x) / image_width * of_int aw)"
  define c1 where "c1 = py_int ((sub_x - image_x + sub_width) / image_width * of_int aw)"
  define r0 where "r0 = py_int ((sub_y - image_y) / image_height * of_int ah)"
  define r1 where "r1 = py_int ((sub_y - image_y + sub_height) / image_height * of_int ah)"
  have aw0: "0 \<le> aw" and ah0: "0 \<le> ah" using arr by (simp_all add: aw_def ah_def)
  have c01: "c0 \<le> c1" unfolding c0_def c1_def
    using nz(1) img(1) aw0 by (intro scaled_index_mono) simp_all
  have r01: "r0 \<le> r1" unfolding r0_def r1_def
    using nz(2) img(2) ah0 by (intro scaled_index_mono) simp_all
  have c1n: "0 \<le> c1" unfolding c1_def
    using ovx(1) img(1) aw0 by (intro py_int_nonneg mult_nonneg_nonneg divide_nonneg_pos) simp_all
  have r1n: "0 \<le> r1" unfolding r1_def
    using ovy(1) img(2) ah0 by (intro py_int_nonneg mult_nonneg_nonneg divide_nonneg_pos) simp_all
  have c0a: "c0 \<le> aw"
  proof -
    have "(sub_x - image_x) / image_width \<le> 1" using ovx(2) img(1) by simp
    then have "(sub_x - image_x) / image_width * of_int aw \<le> 1 * of_int aw"
      using aw0 by (intro mult_right_mono) simp_all
    then have "c0 \<le> py_int (of_int aw)" unfolding c0_def by (intro py_int_mono) simp
    then show ?thesis by (simp add: py_int_of_int)
  qed
  have r0a: "r0 \<le> ah"
  proof -
    have "(sub_y - image_y) / image_height \<le> 1" using ovy(2) img(2) by simp
    then have "(sub_y - image_y) / image_height * of_int ah \<le> 1 * of_int ah"
      using ah0 by (intro mult_right_mono) simp_all
    then have "r0 \<le> py_int (of_int ah)" unfolding r0_def by (intro py_int_mono) simp
    then show ?thesis by (simp add: py_int_of_int)
  qed
  have cc: "max c0 0 \<le> min c1 aw" by (rule clip_ordered[OF c01 c1n c0a aw0])
  have rr: "max r0 0 \<le> min r1 ah" by (rule clip_ordered[OF r01 r1n r0a ah0])
  have "calc_zoom_coords e s (image_x, image_y, image_width, image_height) =
      Inr (Some ((if x_axis_is_flipped s then aw - min c1 aw else max c0 0,
                  if x_axis_is_flipped s then aw - max c0 0 else min c1 aw,
                  if y_axis_is_flipped s then ah - min r1 ah else max r0 0,
                  if y_axis_is_flipped s then ah - max r0 0 else min r1 ah), draw_bounds s))"
    using nz img
    by (simp add: calc_zoom_coords_def db Let_def aw_def ah_def c0_def c1_def r0_def r1_def)
  moreover have "0 \<le> (if x_axis_is_flipped s then aw - min c1 aw else max c0 0)" by simp
  moreover have "(if x_axis_is_flipped s then aw - min c1 aw else max c0 0)
      \<le> (if x_axis_is_flipped s then aw - max c0 0 else min c1 aw)" using cc by simp
  moreover have "(if x_axis_is_flipped s then aw - max c0 0 else min c1 aw) \<le> get_width e - 1"
    unfolding aw_def [symmetric] by auto
  moreover have "0 \<le> (if y_axis_is_flipped s then ah - min r1 ah else max r0 0)" by simp
  moreover have "(if y_axis_is_flipped s then ah - min r1 ah else max r0 0)
      \<le> (if y_axis_is_flipped s then ah - max r0 0 else min r1 ah)" using rr by simp
  moreover have "(if y_axis_is_flipped s then ah - max r0 0 else min r1 ah) \<le> get_height e - 1"
    unfolding ah_def [symmetric] by auto
  ultimately show ?thesis by blast
qed

text \<open>
  Claim C8. The claim bounds the returned indices by
  \<open>0 \<le> col_min \<le> col_max \<le> array_width\<close>. For the image panned out of view to the
  right of the drawing area, \<open>_calc_zoom_coords\<close> returns \<open>col_max = -45\<close> with
  \<open>col_min = 0\<close>: \<open>col_max\<close> is clipped from above only, \<open>col_min\<close> from below
  only.
\<close>

theorem zoom_coords_offscreen:
  "calc_zoom_coords offscreen_env offscreen_plot (calc_virtual_screen_bbox offscreen_env) =
     Inr (Some ((0, - 45, 0, 9), [0, 0, 500, 500]))"
  by (simp add: calc_zoom_coords_def offscreen_env_def offscreen_plot_def example_env_def
      example_plot_def py_int_def)

section \<open>The handler of \<open>draw_bounds\<close>\<close>

lemma set_lod_lod: "lod (set_lod th v s) = v"
  by (cases th) (auto simp: set_lod_def dispatch_ui_def handle_lod_level_change_def invalidate_draw_def)

lemma set_lod_maximum_lod: "maximum_lod (set_lod th v s) = maximum_lod s"
  by (cases th) (auto simp: set_lod_def dispatch_ui_def handle_lod_level_change_def invalidate_draw_def)

lemma set_lod_super_invalidate_draws:
  "super_invalidate_draws s \<le> super_invalidate_draws (set_lod th v s)"
  by (cases th) (auto simp: set_lod_def dispatch_ui_def handle_lod_level_change_def invalidate_draw_def)

text \<open>
  Claim C4. The handler of a change of \<open>draw_bounds\<close> leaves \<open>lod\<close> at
  \<open>maximum_lod\<close>, the serializer's queue of pending operations empty and
  \<open>_image_cache_valid\<close> at \<open>False\<close>, and it has called the superclass's
  \<open>invalidate_draw\<close>.
\<close>

theorem handle_draw_bounds_change_resets:
  "lod (handle_draw_bounds_change th s) = maximum_lod s \<and>
   pending_operations (handle_draw_bounds_change th s) = [] \<and>
   image_cache_valid (handle_draw_bounds_change th s) = False \<and>
   super_invalidate_draws s < super_invalidate_draws (handle_draw_bounds_change th s)"
proof -
  have "super_invalidate_draws s \<le> super_invalidate_draws (set_lod th (maximum_lod s) s)"
    by (rule set_lod_super_invalidate_draws)
  then show ?thesis
    by (simp add: handle_draw_bounds_change_def Let_def invalidate_draw_def set_lod_lod)
qed

text \<open>
  On the GUI thread, for a plot at level 2 with one job waiting.
\<close>

theorem handle_draw_bounds_change_resets_witness:
  "lod busy_plot = 2 \<and> pending_operations busy_plot = [ComputeCachedImage] \<and>
   image_cache_valid busy_plot \<and>
   lod (handle_draw_bounds_change UIThread busy_plot) = 4 \<and>
   pending_operations (handle_draw_bounds_change UIThread busy_plot) = [] \<and>
   \<not> image_cache_valid (handle_draw_bounds_change UIThread busy_plot) \<and>
   0 < super_invalidate_draws (handle_draw_bounds_change UIThread busy_plot)"
  using handle_draw_bounds_change_resets [of UIThread busy_plot]
  by (simp add: busy_plot_def example_plot_def)

section \<open>Submitting cache computations\<close>

lemma render_pending:
  "pending_operations (fst (render s)) =
     pending_operations s @ (if image_cache_valid s then [] else [ComputeCachedImage])"
  by (auto simp: render_def render_image_in_rect_def serializer_submit_def Let_def
      split: option.splits list.splits)

lemma render_valid: "image_cache_valid (fst (render s)) = image_cache_valid s"
  by (auto simp: render_def render_image_in_rect_def serializer_submit_def Let_def
      split: option.splits list.splits)

lemma renders_valid: "image_cache_valid (renders n s) = image_cache_valid s"
  by (induction n arbitrary: s) (simp_all add: render_valid)

lemma renders_pending:
  "pending_operations (renders n s) =
     pending_operations s @ (if image_cache_valid s then [] else replicate n ComputeCachedImage)"
proof (induction n arbitrary: s)
  case 0
  show ?case by simp
next
  case (Suc n)
  show ?case
    by (simp add: Suc.IH render_pending render_valid replicate_app_Cons_same)
qed

text \<open>
  Claim C2, as amended. \<open>_render\<close> submits \<open>_compute_cached_image\<close> exactly when
  \<open>_image_cache_valid\<close> is \<open>False\<close>, one job per call, and leaves the flag as it
  is: \<open>n\<close> calls of \<open>_render\<close> while the cache stays invalid submit \<open>n\<close> jobs,
  and calls while it is valid submit none.
\<close>

theorem render_submits_per_call:
  "pending_operations (fst (render s)) =
     pending_operations s @ (if image_cache_valid s then [] else [ComputeCachedImage]) \<and>
   image_cache_valid (fst (render s)) = image_cache_valid s \<and>
   pending_operations (renders n s) =
     pending_operations s @ (if image_cache_valid s then [] else replicate n ComputeCachedImage)"
  by (simp only: render_pending render_valid renders_pending simp_thms)

text \<open>
  One call after an invalidation submits one job, three calls submit three, a call
  on a valid cache none.
\<close>

theorem render_submits_per_call_witness:
  "\<not> image_cache_valid (invalidate_draw example_plot) \<and>
   pending_operations (fst (render (invalidate_draw example_plot))) = [ComputeCachedImage] \<and>
   pending_operations (renders 3 (invalidate_draw example_plot)) =
     [ComputeCachedImage, ComputeCachedImage, ComputeCachedImage] \<and>
   pending_operations (fst (render example_plot)) = []"
  using render_submits_per_call [of "invalidate_draw example_plot" 3]
    render_submits_per_call [of example_plot 0]
  by (simp add: invalidate_draw_def example_plot_def numeral_3_eq_3)

text \<open>
  Claim C2, as stated, says that at most one job is submitted per invalidation
  across all \<open>_render\<close> calls that follow it. After one invalidation of a valid
  cache, two calls of \<open>_render\<close> leave two jobs in the serializer and the cache
  still invalid.
\<close>

theorem render_twice_submits_twice:
  "image_cache_valid example_plot \<and>
   \<not> image_cache_valid (invalidate_draw example_plot) \<and>
   pending_operations (invalidate_draw example_plot) = [] \<and>
   \<not> image_cache_valid (renders 2 (invalidate_draw example_plot)) \<and>
   pending_operations (renders 2 (invalidate_draw example_plot)) =
     [ComputeCachedImage, ComputeCachedImage] \<and>
   \<not> length (pending_operations (renders 2 (invalidate_draw example_plot))) \<le> 1"
  by (simp add: numeral_2_eq_2 render_def invalidate_draw_def example_plot_def
      serializer_submit_def)

section \<open>Running cache computations\<close>

lemma cache_dispatch_ui: "necessary_lod_cache (dispatch_ui th ev s) = necessary_lod_cache s"
  by (cases ev)
     (simp_all add: dispatch_ui_def handle_lod_level_change_def
        handle_new_cached_def invalidate_draw_def request_redraw_def)


lemma same_view_cache_filled: "same_view s (cache_filled th e mapper s z)"
proof -
  let ?s1 = "s\<lparr>cached_image :=
            Some (kiva_array_from_numpy_array e (get_data_slice e s (map_option fst z) mapper)),
          cached_dest_rect := map_option snd z,
          image_cache_valid := True\<rparr>"
  have "same_view s ?s1" by (simp add: same_view_def)
  moreover have "same_view ?s1 (fire_new_cache_ready th ?s1)" by (rule same_view_fire)
  ultimately show ?thesis unfolding cache_filled_def by (rule same_view_trans)
qed

lemma lod_cache_filled: "lod (cache_filled th e mapper s z) = lod s"
  by (simp add: cache_filled_def fire_new_cache_ready_def lod_dispatch_ui)

lemma cache_cache_filled:
  "necessary_lod_cache (cache_filled th e mapper s z) = necessary_lod_cache s"
  by (simp add: cache_filled_def fire_new_cache_ready_def cache_dispatch_ui)

text \<open>A read gives the same level on a plot with the same view and cached value.\<close>

lemma get_necessary_lod_transfer:
  assumes v: "same_view s s2"
    and c: "necessary_lod_cache s2 = necessary_lod_cache s"
    and r: "get_necessary_lod e s = Some (Inr nl, s1)"
  shows "get_necessary_lod e s2 = Some (Inr nl, s2\<lparr>necessary_lod_cache := Some nl\<rparr>)"
proof -
  from get_necessary_lod_InrD[OF r] have
    d: "necessary_lod_cache s = Some nl \<or>
        necessary_lod_cache s = None \<and> get_necessary_lod_uncached e s = Some (Inr nl)"
    by (rule conjunct2)
  show ?thesis
  proof (cases "necessary_lod_cache s")
    case (Some w)
    with d have "necessary_lod_cache s = Some nl" by auto
    then have h: "necessary_lod_cache s2 = Some nl" using c by simp
    have "s2\<lparr>necessary_lod_cache := Some nl\<rparr> = s2" using h by simp
    with get_necessary_lod_cached[OF h] show ?thesis by simp
  next
    case None
    with d have u: "get_necessary_lod_uncached e s = Some (Inr nl)" by auto
    from None have n: "necessary_lod_cache s2 = None" using c by simp
    have "get_necessary_lod_uncached e s2 = Some (Inr nl)"
      using u by (simp add: get_necessary_lod_uncached_same_view[OF v])
    then show ?thesis by (simp add: get_necessary_lod_fresh[OF n])
  qed
qed

lemma compute_cached_image_unfold:
  assumes z: "calc_zoom_coords e s (calc_virtual_screen_bbox e) = Inr z"
  shows "compute_cached_image th e mapper s =
           (case get_necessary_lod e (cache_filled th e mapper s z) of
              None \<Rightarrow> None
            | Some (Inl err, s3) \<Rightarrow> Some (s3, Some err)
            | Some (Inr nl, s3) \<Rightarrow>
                Some (if lod s3 > nl then set_lod th (lod s3 - 1) s3 else s3, None))"
  unfolding compute_cached_image_def Let_def z cache_filled_def sum.case ..

lemma compute_cached_image_completedD:
  assumes "compute_cached_image th e mapper s = Some (s', None)"
  shows "\<exists>z nl. calc_zoom_coords e s (calc_virtual_screen_bbox e) = Inr z \<and>
           s' = run_result th e mapper s z nl"
proof (cases "calc_zoom_coords e s (calc_virtual_screen_bbox e)")
  case (Inl err)
  with assms show ?thesis by (simp add: compute_cached_image_def)
next
  case (Inr z)
  let ?c = "cache_filled th e mapper s z"
  from assms obtain nl s3 where
    r: "get_necessary_lod e ?c = Some (Inr nl, s3)"
    and s': "s' = (if lod s3 > nl then set_lod th (lod s3 - 1) s3 else s3)"
    unfolding compute_cached_image_unfold[OF Inr]
    by (auto split: option.splits sum.splits prod.splits)
  from get_necessary_lod_InrD[OF r] have s3: "s3 = ?c\<lparr>necessary_lod_cache := Some nl\<rparr>" by simp
  have "lod s3 = lod s" by (simp add: s3 lod_cache_filled)
  with s' s3 have "s' = run_result th e mapper s z nl"
    by (simp add: run_result_def Let_def)
  with Inr show ?thesis by blast
qed

lemma compute_step:
  assumes r: "get_necessary_lod e s = Some (Inr nl, s1)"
    and z: "calc_zoom_coords e s (calc_virtual_screen_bbox e) = Inr z"
  shows "compute_cached_image th e m s = Some (run_result th e m s z nl, None)"
proof -
  let ?c = "cache_filled th e m s z"
  have "get_necessary_lod e ?c = Some (Inr nl, ?c\<lparr>necessary_lod_cache := Some nl\<rparr>)"
    by (rule get_necessary_lod_transfer[OF same_view_cache_filled cache_cache_filled r])
  then show ?thesis
    unfolding compute_cached_image_unfold[OF z]
    by (simp add: run_result_def Let_def lod_cache_filled)
qed

lemma lod_run_result:
  "lod (run_result th e m s z nl) = (if nl < lod s then lod s - 1 else lod s)"
  by (simp add: run_result_def Let_def set_lod_lod lod_cache_filled)










lemma redraw_requests_fold:
  "redraw_requests (fold ui_handler evs s) =
     redraw_requests s + length (filter (\<lambda>ev. ev = NewCacheReady) evs)"
proof (induction evs arbitrary: s)
  case Nil
  show ?case by simp
next
  case (Cons ev evs)
  show ?case
    by (cases ev)
       (simp_all add: Cons.IH handle_lod_level_change_def handle_new_cached_def
          invalidate_draw_def request_redraw_def)
qed

lemma redraw_requests_drain_ui:
  "redraw_requests (drain_ui s) =
     redraw_requests s + length (filter (\<lambda>ev. ev = NewCacheReady) (ui_queue s))"
  by (simp add: drain_ui_def redraw_requests_fold)


text \<open>
  Claim C6. After a completed run of \<open>_compute_cached_image\<close>, with \<open>z\<close> what
  \<open>_calc_zoom_coords\<close> returned: the cached image is the kiva array of
  \<open>value.get_data_bounded\<close> at the index bounds of \<open>z\<close> and the \<open>lod\<close> the run
  started with, passed through the mapper when one is given and the data is not
  empty; \<open>_cached_dest_rect\<close> is the screen rectangle of \<open>z\<close>, which is
  \<open>draw_bounds\<close> whenever bounds were returned. \<open>_image_cache_valid\<close>, set to
  \<open>True\<close> by the run, is still \<open>True\<close> at its end on a thread of the executor,
  where the serializer runs it, and on the GUI thread unless the run lowered
  \<open>lod\<close>, whose handler then invalidated the cache at once. On a thread of the
  executor the handler of \<open>new_cache_ready\<close> is on the GUI event loop, which
  calls \<open>request_redraw\<close> when it runs it; on the GUI thread the handler has
  already called \<open>request_redraw\<close>.
\<close>

theorem compute_cached_image_completed:
  assumes "compute_cached_image th e m s = Some (s', None)"
  shows "\<exists>z. calc_zoom_coords e s (calc_virtual_screen_bbox e) = Inr z \<and>
           cached_image s' =
             Some (kiva_array_from_numpy_array e
                     (let data = get_data_bounded e (map_option fst z) (lod s)
                      in case m of
                           None \<Rightarrow> data
                         | Some f \<Rightarrow> if 0 < data_size e data then f data else data)) \<and>
           cached_dest_rect s' = map_option snd z \<and>
           (\<forall>ib sr. z = Some (ib, sr) \<longrightarrow> sr = draw_bounds s) \<and>
           image_cache_valid s' = (th = WorkerThread \<or> lod s' = lod s) \<and>
           (th = WorkerThread \<longrightarrow>
              (\<exists>q. ui_queue s' = ui_queue s @ NewCacheReady # q) \<and>
              redraw_requests s < redraw_requests (drain_ui s')) \<and>
           (th = UIThread \<longrightarrow> redraw_requests s' = Suc (redraw_requests s))"
proof -
  from compute_cached_image_completedD[OF assms] obtain z nl where
    z: "calc_zoom_coords e s (calc_virtual_screen_bbox e) = Inr z"
    and s': "s' = run_result th e m s z nl" by blast
  note defs = run_result_def Let_def cache_filled_def set_lod_def fire_new_cache_ready_def
    dispatch_ui_def handle_lod_level_change_def handle_new_cached_def invalidate_draw_def
    request_redraw_def
  have 1: "cached_image s' =
             Some (kiva_array_from_numpy_array e
                     (let data = get_data_bounded e (map_option fst z) (lod s)
                      in case m of
                           None \<Rightarrow> data
                         | Some f \<Rightarrow> if 0 < data_size e data then f data else data))"
    unfolding s' by (cases th; cases m) (simp_all add: defs get_data_slice_def)
  have 2: "cached_dest_rect s' = map_option snd z"
    unfolding s' by (cases th) (simp_all add: defs)
  have 3: "\<forall>ib sr. z = Some (ib, sr) \<longrightarrow> sr = draw_bounds s"
    using z calc_zoom_coords_screen_rect by blast
  have 4: "image_cache_valid s' = (th = WorkerThread \<or> lod s' = lod s)"
    unfolding s' by (cases th) (simp_all add: defs)
  have 5: "\<exists>q. ui_queue s' = ui_queue s @ NewCacheReady # q" if "th = WorkerThread"
    unfolding s' using that by (simp add: defs)
  have 6: "redraw_requests s' = redraw_requests s" if "th = WorkerThread"
    unfolding s' using that by (simp add: defs)
  have 7: "redraw_requests s < redraw_requests (drain_ui s')" if w: "th = WorkerThread"
  proof -
    from 5[OF w] obtain q where "ui_queue s' = ui_queue s @ NewCacheReady # q" ..
    then show ?thesis by (simp add: redraw_requests_drain_ui 6[OF w])
  qed
  have 8: "redraw_requests s' = Suc (redraw_requests s)" if "th = UIThread"
    unfolding s' using that by (simp add: defs)
  from z 1 2 3 4 5 7 8 show ?thesis by blast
qed

lemma slice_zoom_coords:
  "calc_zoom_coords slice_env slice_plot (calc_virtual_screen_bbox slice_env) =
     Inr (Some ((0, 1024, 0, 1024), [0, 0, 100, 100]))"
  by (simp add: calc_zoom_coords_def slice_env_def slice_plot_def py_int_def)

lemma slice_uncached: "get_necessary_lod_uncached slice_env slice_plot = Some (Inr 3)"
  by (simp add: get_necessary_lod_uncached_def slice_zoom_coords)
     (simp add: slice_env_def slice_plot_def necessary_lod_loop.simps example_lod_bounds_def)

lemma slice_read:
  "get_necessary_lod slice_env slice_plot =
     Some (Inr 3, slice_plot\<lparr>necessary_lod_cache := Some 3\<rparr>)"
proof -
  have c: "necessary_lod_cache slice_plot = None" by (simp add: slice_plot_def)
  show ?thesis by (simp add: get_necessary_lod_fresh[OF c] slice_uncached)
qed

text \<open>
  The source of the example records what it was asked for: the run at level 4
  caches the slice for the bounds \<open>(0, 1024, 0, 1024)\<close> at level 4, not at the
  maximum 5 nor at the level 3 it ends on, with every value raised by the mapper
  and the mark of the kiva conversion in front. Without a mapper the slice is
  cached as it is, and on the GUI thread the run, which lowers \<open>lod\<close> to 3,
  leaves the cache invalid.
\<close>

theorem compute_cached_image_completed_witness:
  "(\<exists>s'. compute_cached_image WorkerThread slice_env (Some slice_mapper) slice_plot =
            Some (s', None) \<and>
      cached_image s' = Some [0, 1, 1025, 1, 1025, 5] \<and>
      cached_dest_rect s' = Some [0, 0, 100, 100] \<and>
      image_cache_valid s' \<and>
      0 < redraw_requests (drain_ui s')) \<and>
   (\<exists>s'. compute_cached_image UIThread slice_env None slice_plot = Some (s', None) \<and>
      cached_image s' = Some [0, 0, 1024, 0, 1024, 4] \<and>
      cached_dest_rect s' = Some [0, 0, 100, 100] \<and>
      lod s' = 3 \<and> \<not> image_cache_valid s' \<and>
      redraw_requests s' = 1)"
proof
  let ?s' = "run_result WorkerThread slice_env (Some slice_mapper) slice_plot
               (Some ((0, 1024, 0, 1024), [0, 0, 100, 100])) 3"
  have c: "compute_cached_image WorkerThread slice_env (Some slice_mapper) slice_plot =
             Some (?s', None)"
    by (rule compute_step[OF slice_read slice_zoom_coords])
  from compute_cached_image_completed [OF c] obtain z where
    z: "calc_zoom_coords slice_env slice_plot (calc_virtual_screen_bbox slice_env) = Inr z"
    and i: "cached_image ?s' =
             Some (kiva_array_from_numpy_array slice_env
                     (let data = get_data_bounded slice_env (map_option fst z) (lod slice_plot)
                      in case Some slice_mapper of
                           None \<Rightarrow> data
                         | Some f \<Rightarrow> if 0 < data_size slice_env data then f data else data))"
    and d: "cached_dest_rect ?s' = map_option snd z"
    and v: "image_cache_valid ?s' = (WorkerThread = WorkerThread \<or> lod ?s' = lod slice_plot)"
    and r: "redraw_requests slice_plot < redraw_requests (drain_ui ?s')"
    by blast
  from z have z': "z = Some ((0, 1024, 0, 1024), [0, 0, 100, 100])"
    by (simp add: slice_zoom_coords)
  have "cached_image ?s' = Some [0, 1, 1025, 1, 1025, 5]"
    using i unfolding z' by (simp add: slice_env_def slice_plot_def slice_mapper_def)
  moreover have "cached_dest_rect ?s' = Some [0, 0, 100, 100]" using d unfolding z' by simp
  moreover have "image_cache_valid ?s'" using v by simp
  moreover have "0 < redraw_requests (drain_ui ?s')" using r by simp
  ultimately show "\<exists>s'. compute_cached_image WorkerThread slice_env (Some slice_mapper) slice_plot =
            Some (s', None) \<and>
      cached_image s' = Some [0, 1, 1025, 1, 1025, 5] \<and>
      cached_dest_rect s' = Some [0, 0, 100, 100] \<and>
      image_cache_valid s' \<and>
      0 < redraw_requests (drain_ui s')"
    using c by blast
next
  let ?s' = "run_result UIThread slice_env None slice_plot
               (Some ((0, 1024, 0, 1024), [0, 0, 100, 100])) 3"
  have c: "compute_cached_image UIThread slice_env None slice_plot = Some (?s', None)"
    by (rule compute_step[OF slice_read slice_zoom_coords])
  from compute_cached_image_completed [OF c] obtain z where
    z: "calc_zoom_coords slice_env slice_plot (calc_virtual_screen_bbox slice_env) = Inr z"
    and i: "cached_image ?s' =
             Some (kiva_array_from_numpy_array slice_env
                     (let data = get_data_bounded slice_env (map_option fst z) (lod slice_plot)
                      in case None of
                           None \<Rightarrow> data
                         | Some f \<Rightarrow> if 0 < data_size slice_env data then f data else data))"
    and d: "cached_dest_rect ?s' = map_option snd z"
    and v: "image_cache_valid ?s' = (UIThread = WorkerThread \<or> lod ?s' = lod slice_plot)"
    and r: "redraw_requests ?s' = Suc (redraw_requests slice_plot)"
    by blast
  have l: "lod ?s' = 3" by (simp add: lod_run_result slice_plot_def)
  from z have z': "z = Some ((0, 1024, 0, 1024), [0, 0, 100, 100])"
    by (simp add: slice_zoom_coords)
  have "cached_image ?s' = Some [0, 0, 1024, 0, 1024, 4]"
    using i unfolding z' by (simp add: slice_env_def slice_plot_def)
  moreover have "cached_dest_rect ?s' = Some [0, 0, 100, 100]" using d unfolding z' by simp
  moreover have "redraw_requests ?s' = 1" using r by (simp add: slice_plot_def)
  moreover have "\<not> image_cache_valid ?s'" using v l by (simp add: slice_plot_def)
  ultimately show "\<exists>s'. compute_cached_image UIThread slice_env None slice_plot = Some (s', None) \<and>
      cached_image s' = Some [0, 0, 1024, 0, 1024, 4] \<and>
      cached_dest_rect s' = Some [0, 0, 100, 100] \<and>
      lod s' = 3 \<and> \<not> image_cache_valid s' \<and>
      redraw_requests s' = 1"
    using c l by blast
qed

section \<open>The guarded import\<close>

text \<open>
  Claim C9. When either import of encore raises \<open>ImportError\<close> (the second one
  being reached only if the first succeeded), the module calls \<open>sys.exit\<close> with the
  message \<open>encore must be installed to use LODImagePlot\<close>; when both succeed the
  module goes on without exiting; and \<open>sys.exit\<close> is called in no other case.
\<close>

theorem import_encore_exits:
  "((si = RaisesImportError \<or> (si = Imported \<and> ei = RaisesImportError)) \<longrightarrow>
      import_encore si ei = SysExit ''encore must be installed to use LODImagePlot'') \<and>
   (si = Imported \<and> ei = Imported \<longrightarrow> import_encore si ei = Continues) \<and>
   ((\<exists>msg. import_encore si ei = SysExit msg) =
      (si = RaisesImportError \<or> (si = Imported \<and> ei = RaisesImportError)))"
  by (cases si; cases ei) (simp_all add: import_encore_def)

text \<open>
  The three cases at concrete outcomes.
\<close>

theorem import_encore_exits_witness:
  "import_encore RaisesImportError Imported =
     SysExit ''encore must be installed to use LODImagePlot'' \<and>
   import_encore Imported RaisesImportError =
     SysExit ''encore must be installed to use LODImagePlot'' \<and>
   import_encore Imported Imported = Continues"
  using import_encore_exits [of RaisesImportError Imported]
    import_encore_exits [of Imported RaisesImportError]
    import_encore_exits [of Imported Imported]
  by simp

section \<open>The re-exporting module\<close>

text \<open>
  Claim C10. When \<open>chaco.overlays.data_label\<close> defines \<open>DataLabel\<close>,
  \<open>draw_arrow\<close> and \<open>find_region\<close>, running \<open>chaco/data_label.py\<close> binds each
  of the three names to the very object the other module holds under it, defines
  nothing else besides the imported \<open>warnings\<close> module, and issues one
  \<open>DeprecationWarning\<close>.
\<close>

theorem data_label_reexports:
  assumes "overlays ''DataLabel'' = Some a"
    and "overlays ''draw_arrow'' = Some b"
    and "overlays ''find_region'' = Some c"
  shows "\<exists>ns. data_label_module w overlays issued =
            Inr (ns, issued @ [\<lparr>message = deprecation_message,
                                category = DeprecationWarning, stacklevel = 2\<rparr>]) \<and>
          ns ''DataLabel'' = overlays ''DataLabel'' \<and>
          ns ''draw_arrow'' = overlays ''draw_arrow'' \<and>
          ns ''find_region'' = overlays ''find_region'' \<and>
          dom ns = {''warnings'', ''DataLabel'', ''draw_arrow'', ''find_region''}"
  using assms by (auto simp: data_label_module_def)

text \<open>
  A fourth name of the overlays module is not re-exported.
\<close>

theorem data_label_reexports_witness:
  "\<exists>ns. data_label_module 0 example_overlays [] =
            Inr (ns, [\<lparr>message = deprecation_message,
                       category = DeprecationWarning, stacklevel = 2\<rparr>]) \<and>
          ns ''DataLabel'' = Some 1 \<and> ns ''draw_arrow'' = Some 2 \<and> ns ''find_region'' = Some 3 \<and>
          ns ''other'' = None"
proof -
  have a: "example_overlays ''DataLabel'' = Some 1" by (simp add: example_overlays_def)
  have b: "example_overlays ''draw_arrow'' = Some 2" by (simp add: example_overlays_def)
  have c: "example_overlays ''find_region'' = Some 3" by (simp add: example_overlays_def)
  from data_label_reexports [OF a b c, of 0 "[]"] obtain ns where
    m: "data_label_module 0 example_overlays [] =
          Inr (ns, [] @ [\<lparr>message = deprecation_message,
                           category = DeprecationWarning, stacklevel = 2\<rparr>])"
    and n1: "ns ''DataLabel'' = example_overlays ''DataLabel''"
    and n2: "ns ''draw_arrow'' = example_overlays ''draw_arrow''"
    and n3: "ns ''find_region'' = example_overlays ''find_region''"
    and d: "dom ns = {''warnings'', ''DataLabel'', ''draw_arrow'', ''find_region''}"
    by blast
  have "''other'' \<notin> dom ns" unfolding d by simp
  then have n4: "ns ''other'' = None" by blast
  show ?thesis
    using m n1 n2 n3 n4 a b c by (intro exI [of _ ns]) simp
qed

end
